theory Spec2Isabelle
  imports Complex_Main "HOL-Library.AList"
begin

section \<open>Data model (api/models.py)\<close>

text \<open>
  Identifiers are Python integers. A latency is the JSON number of the answer frame
  (a float of seconds); the code only compares it with the constants 3 and 7, which is
  exact on every finite float, so it is modelled as a real number.
\<close>

type_synonym uid = int
type_synonym mid = int
type_synonym channel = string

text \<open>
  Python dictionaries whose length or insertion order the code reads are association
  lists: \<open>map_of\<close> is \<open>d.get(k)\<close>, \<open>AList.update\<close> is \<open>d[k] = v\<close> (an existing key keeps
  its place, a new key goes to the end) and \<open>AList.delete\<close> is \<open>del d[k]\<close>.
\<close>

type_synonym ('k, 'v) dict = "('k \<times> 'v) list"

definition has_key :: "('k, 'v) dict \<Rightarrow> 'k \<Rightarrow> bool" where
  "has_key d k = (map_of d k \<noteq> None)"

text \<open>
  The exceptions the modelled code can raise: a row that \<open>objects.get\<close> does not find,
  and an attribute that an object does not have.
\<close>

datatype py_error = DoesNotExist | AttributeError

text \<open>\<open>avatar\<close> is a nullable URLField: \<open>None\<close> or a string, possibly empty.\<close>

record user =
  username :: string
  avatar :: "string option"
  rating :: int
  level :: int
  wins :: int
  losses :: int
  is_online :: bool
  is_in_game :: bool

record question =
  q_id :: int
  q_text :: string
  correct_option :: string
  explanation :: string

datatype match_status = Waiting | InProgress | Completed | Cancelled

record match_row =
  player1_id :: uid
  player2_id :: uid
  score1 :: int
  score2 :: int
  winner :: "uid option"
  status :: match_status
  m_current_round :: int
  total_rounds :: int

record round_row =
  r_question :: question
  player1_answer :: "string option"
  player2_answer :: "string option"
  player1_time :: "real option"
  player2_time :: "real option"
  player1_score :: int
  player2_score :: int

record history_row =
  h_user :: uid
  h_match :: mid
  h_opponent :: uid
  user_score :: int
  opponent_score :: int
  is_winner :: bool
  rating_change :: int

text \<open>
  The tables the match engine touches. Round rows are keyed by (match, round_number),
  the model's \<open>unique_together\<close>; \<open>match_seq\<close> is the primary-key sequence of the Match
  table. Timestamps and the question's option texts and category are not read
  by any modelled decision and are left out.
\<close>

record db =
  users :: "uid \<rightharpoonup> user"
  matches :: "mid \<rightharpoonup> match_row"
  rounds :: "(mid \<times> int, round_row) dict"
  history :: "history_row list"
  questions :: "question list"
  match_seq :: mid

subsection \<open>User.update_rating\<close>

definition update_rating :: "bool \<Rightarrow> user \<Rightarrow> user" where
  "update_rating won u =
     (let u1 = (if won then u\<lparr>rating := rating u + 20, wins := wins u + 1\<rparr>
                else u\<lparr>rating := max 0 (rating u - 15), losses := losses u + 1\<rparr>)
      in u1\<lparr>level := (rating u1 div 200) + 1\<rparr>)"

subsection \<open>Round.calculate_score\<close>

definition calculate_score :: "real \<Rightarrow> bool \<Rightarrow> int" where
  "calculate_score time_taken is_correct =
     (if \<not> is_correct then 0
      else if time_taken \<le> 3 then 100
      else if time_taken \<le> 7 then 70
      else 40)"

section \<open>Transient match state (game/consumers.py, GameConsumer.game_states)\<close>

record answer_entry =
  a_answer :: "string option"
  a_time :: real

record game_state =
  players_ready :: "uid set"
  current_round :: int
  round_answers :: "(int, (uid, answer_entry) dict) dict"
  round_start_time :: "real option"
  emojis_sent :: "uid \<rightharpoonup> nat"

text \<open>The inbound frames of a game session; a missing JSON key is \<open>None\<close>.\<close>

record answer_frame =
  f_answer :: "string option"
  f_time :: "real option"

record player_result =
  pr_answer :: "string option"
  pr_time :: real
  pr_score :: int
  pr_correct :: bool

record round_result =
  rr_correct_answer :: string
  rr_explanation :: string
  rr_players :: "(uid, player_result) dict"
  rr_total_scores :: "(uid, int) dict"

record round_review =
  rv_round_number :: int
  rv_correct_answer :: string
  rv_player1_answer :: "string option"
  rv_player2_answer :: "string option"
  rv_player1_score :: int
  rv_player2_score :: int

record player_summary =
  ps_id :: uid
  ps_username :: string
  ps_score :: int
  ps_new_rating :: int

record match_result =
  mr_winner_id :: "uid option"
  mr_player1 :: player_summary
  mr_player2 :: player_summary
  mr_rounds :: "round_review list"

text \<open>What \<open>channel_layer.group_send\<close> puts on the room group of a match.\<close>

datatype group_event =
    GameStart
  | QuestionStart int question
  | AnswerSubmitted uid
  | RoundEnd int round_result
  | MatchEnd match_result
  | EmojiReceived uid "string option"

text \<open>
  What a handler awaits after \<open>asyncio.sleep\<close>: other handlers run during the sleep, so
  the rest of the coroutine is a continuation that the event loop resumes later.
\<close>

datatype continuation = StartRoundAfter3 | EndMatchAfter2 | RoundTimeoutAfter15 int

record player_info =
  pi_id :: uid
  pi_username :: string
  pi_avatar :: "string option"
  pi_rating :: int

record match_data =
  md_id :: mid
  md_player1 :: player_info
  md_player2 :: player_info
  md_total_rounds :: int

text \<open>The frames a matchmaking session sends to a client.\<close>

datatype mm_frame = MatchFound match_data | MatchmakingStart | MatchmakingCancelled

text \<open>
  The process-wide state: the database, the two class-level dictionaries
  (\<open>GameConsumer.game_states\<close>, \<open>MatchmakingConsumer.waiting_players\<close>) and, as logs,
  what was sent so far: \<open>outbox\<close> holds the group events per match, \<open>mm_sent\<close> the frames
  of the matchmaking sessions per channel.
\<close>

record world =
  w_db :: db
  game_states :: "mid \<rightharpoonup> game_state"
  waiting_players :: "(uid, channel) dict"
  outbox :: "(mid \<times> group_event) list"
  mm_sent :: "(channel \<times> mm_frame) list"

record consumer =
  c_user :: uid
  c_match_id :: mid

subsection \<open>GameConsumer.calculate_round_result\<close>

definition entry_answer :: "answer_entry option \<Rightarrow> string option" where
  "entry_answer e = (case e of None \<Rightarrow> None | Some x \<Rightarrow> a_answer x)"

definition entry_time :: "answer_entry option \<Rightarrow> real" where
  "entry_time e = (case e of None \<Rightarrow> 15 | Some x \<Rightarrow> a_time x)"

definition calculate_round_result ::
  "mid \<Rightarrow> int \<Rightarrow> (uid, answer_entry) dict \<Rightarrow> db \<Rightarrow> py_error + (round_result \<times> db)" where
  "calculate_round_result m round_number answers d =
     (case map_of (rounds d) (m, round_number) of
        None \<Rightarrow> Inl DoesNotExist
      | Some round_obj \<Rightarrow>
     (case matches d m of
        None \<Rightarrow> Inl DoesNotExist
      | Some match \<Rightarrow>
         let correct_answer = correct_option (r_question round_obj);
             p1_data = map_of answers (player1_id match);
             p1_answer = entry_answer p1_data;
             p1_time = entry_time p1_data;
             p1_correct = (p1_answer = Some correct_answer);
             p1_score = calculate_score p1_time p1_correct;
             p2_data = map_of answers (player2_id match);
             p2_answer = entry_answer p2_data;
             p2_time = entry_time p2_data;
             p2_correct = (p2_answer = Some correct_answer);
             p2_score = calculate_score p2_time p2_correct;
             round_obj' = round_obj\<lparr>
               player1_answer := p1_answer, player1_time := Some p1_time,
               player1_score := p1_score,
               player2_answer := p2_answer, player2_time := Some p2_time,
               player2_score := p2_score\<rparr>;
             match' = match\<lparr>score1 := score1 match + p1_score,
                            score2 := score2 match + p2_score\<rparr>;
             players =
               AList.update (player2_id match)
                 \<lparr>pr_answer = p2_answer, pr_time = p2_time, pr_score = p2_score,
                  pr_correct = p2_correct\<rparr>
               (AList.update (player1_id match)
                 \<lparr>pr_answer = p1_answer, pr_time = p1_time, pr_score = p1_score,
                  pr_correct = p1_correct\<rparr> []);
             result = \<lparr>rr_correct_answer = correct_answer,
                       rr_explanation = explanation (r_question round_obj),
                       rr_players = players,
                       rr_total_scores =
                         AList.update (player2_id match) (score2 match')
                           (AList.update (player1_id match) (score1 match') [])\<rparr>
         in Inr (result,
                 d\<lparr>rounds := AList.update (m, round_number) round_obj' (rounds d),
                   matches := (matches d)(m \<mapsto> match')\<rparr>)))"

subsection \<open>GameConsumer.get_round_question, update_match_round, get_match_scores\<close>

definition get_round_question :: "mid \<Rightarrow> int \<Rightarrow> db \<Rightarrow> question option" where
  "get_round_question m round_number d =
     (case map_of (rounds d) (m, round_number) of
        None \<Rightarrow> None
      | Some round_obj \<Rightarrow> Some (r_question round_obj))"

definition update_match_round :: "mid \<Rightarrow> int \<Rightarrow> db \<Rightarrow> db" where
  "update_match_round m round_number d =
     (case matches d m of
        None \<Rightarrow> d
      | Some match \<Rightarrow> d\<lparr>matches := (matches d)(m \<mapsto> match\<lparr>m_current_round := round_number\<rparr>)\<rparr>)"

subsection \<open>GameConsumer.finalize_match\<close>

definition set_in_game :: "bool \<Rightarrow> uid list \<Rightarrow> (uid \<rightharpoonup> user) \<Rightarrow> (uid \<rightharpoonup> user)" where
  "set_in_game b ids us =
     (\<lambda>i. if i \<in> set ids then map_option (\<lambda>u. u\<lparr>is_in_game := b\<rparr>) (us i) else us i)"

definition match_rounds :: "mid \<Rightarrow> db \<Rightarrow> (int \<times> round_row) list" where
  "match_rounds m d =
     sort_key fst (map (\<lambda>(k, r). (snd k, r)) (filter (\<lambda>(k, r). fst k = m) (rounds d)))"

definition review :: "int \<times> round_row \<Rightarrow> round_review" where
  "review nr =
     \<lparr>rv_round_number = fst nr,
      rv_correct_answer = correct_option (r_question (snd nr)),
      rv_player1_answer = player1_answer (snd nr),
      rv_player2_answer = player2_answer (snd nr),
      rv_player1_score = player1_score (snd nr),
      rv_player2_score = player2_score (snd nr)\<rparr>"

text \<open>
  \<open>p1_won\<close> is Python's \<open>True\<close>, \<open>False\<close> or \<open>None\<close> (a draw). \<open>match.player1\<close> and
  \<open>match.player2\<close> are the two objects loaded with the match; \<open>update_rating\<close> changes
  and saves each of them.
\<close>

definition finalize_match :: "mid \<Rightarrow> db \<Rightarrow> py_error + (match_result \<times> db)" where
  "finalize_match m d =
     (case matches d m of
        None \<Rightarrow> Inl DoesNotExist
      | Some match \<Rightarrow>
     (case users d (player1_id match) of
        None \<Rightarrow> Inl DoesNotExist
      | Some player1 \<Rightarrow>
     (case users d (player2_id match) of
        None \<Rightarrow> Inl DoesNotExist
      | Some player2 \<Rightarrow>
         let p1_won = (if score1 match > score2 match then Some True
                       else if score2 match > score1 match then Some False
                       else None);
             match' = match\<lparr>
               winner := (case p1_won of
                            Some True \<Rightarrow> Some (player1_id match)
                          | Some False \<Rightarrow> Some (player2_id match)
                          | None \<Rightarrow> None),
               status := Completed\<rparr>;
             d1 = d\<lparr>matches := (matches d)(m \<mapsto> match')\<rparr>;
             player1' = (case p1_won of None \<Rightarrow> player1
                         | Some w \<Rightarrow> update_rating w player1);
             player2' = (case p1_won of None \<Rightarrow> player2
                         | Some w \<Rightarrow> update_rating (\<not> w) player2);
             d2 = (case p1_won of
                     None \<Rightarrow> d1
                   | Some w \<Rightarrow>
                       d1\<lparr>users := ((users d1)(player1_id match \<mapsto> player1'))
                                      (player2_id match \<mapsto> player2')\<rparr>);
             d3 = d2\<lparr>users := set_in_game False [player1_id match, player2_id match] (users d2)\<rparr>;
             h1 = \<lparr>h_user = player1_id match, h_match = m, h_opponent = player2_id match,
                   user_score = score1 match, opponent_score = score2 match,
                   is_winner = (case p1_won of None \<Rightarrow> False | Some w \<Rightarrow> w),
                   rating_change = (case p1_won of Some True \<Rightarrow> 20 | Some False \<Rightarrow> - 15
                                    | None \<Rightarrow> 0)\<rparr>;
             h2 = \<lparr>h_user = player2_id match, h_match = m, h_opponent = player1_id match,
                   user_score = score2 match, opponent_score = score1 match,
                   is_winner = (case p1_won of None \<Rightarrow> False | Some w \<Rightarrow> \<not> w),
                   rating_change = (case p1_won of Some True \<Rightarrow> - 15 | Some False \<Rightarrow> 20
                                    | None \<Rightarrow> 0)\<rparr>;
             d4 = d3\<lparr>history := history d3 @ [h1, h2]\<rparr>;
             result = \<lparr>mr_winner_id = winner match',
                       mr_player1 = \<lparr>ps_id = player1_id match, ps_username = username player1',
                                     ps_score = score1 match, ps_new_rating = rating player1'\<rparr>,
                       mr_player2 = \<lparr>ps_id = player2_id match, ps_username = username player2',
                                     ps_score = score2 match, ps_new_rating = rating player2'\<rparr>,
                       mr_rounds = map review (match_rounds m d4)\<rparr>
         in Inr (result, d4))))"

section \<open>The handlers of a game session (GameConsumer)\<close>

text \<open>
  A handler runs without interruption up to its next \<open>asyncio.sleep\<close>. It returns the
  exception it raised or the continuation it leaves behind (the rest of the coroutine
  after the sleep, or the timer task it created), together with the world as the
  handler left it.
\<close>

type_synonym outcome = "(py_error + continuation option) \<times> world"

definition answers_of :: "(int, (uid, answer_entry) dict) dict \<Rightarrow> int \<Rightarrow> (uid, answer_entry) dict" where
  "answers_of ra r = (case map_of ra r of None \<Rightarrow> [] | Some a \<Rightarrow> a)"

definition group_send :: "mid \<Rightarrow> group_event \<Rightarrow> world \<Rightarrow> world" where
  "group_send m ev w = w\<lparr>outbox := outbox w @ [(m, ev)]\<rparr>"

definition set_state :: "mid \<Rightarrow> game_state \<Rightarrow> world \<Rightarrow> world" where
  "set_state m st w = w\<lparr>game_states := (game_states w)(m \<mapsto> st)\<rparr>"

text \<open>
  \<open>connect\<close> and \<open>disconnect\<close> of a game session. \<open>verify_player\<close> admits only the two
  players of the match; the result says whether the connection was accepted. The
  \<open>connected\<close> frame goes to the caller alone and is not logged.
\<close>

definition verify_player :: "uid \<Rightarrow> mid \<Rightarrow> db \<Rightarrow> bool" where
  "verify_player u m d =
     (case matches d m of
        None \<Rightarrow> False
      | Some match \<Rightarrow> player1_id match = u \<or> player2_id match = u)"

definition initial_state :: game_state where
  "initial_state =
     \<lparr>players_ready = {}, current_round = 0, round_answers = [],
      round_start_time = None, emojis_sent = Map.empty\<rparr>"

definition game_connect :: "uid option \<Rightarrow> mid \<Rightarrow> world \<Rightarrow> bool \<times> world" where
  "game_connect scope_user m w =
     (case scope_user of
        None \<Rightarrow> (False, w)
      | Some u \<Rightarrow>
         if \<not> verify_player u m (w_db w) then (False, w)
         else
           let state = (case game_states w m of None \<Rightarrow> initial_state | Some st \<Rightarrow> st);
               state' = state\<lparr>players_ready := insert u (players_ready state)\<rparr>;
               w1 = set_state m state' w
           in if card (players_ready state') \<ge> 2 then (True, group_send m GameStart w1)
              else (True, w1))"

definition game_disconnect :: "consumer \<Rightarrow> world \<Rightarrow> world" where
  "game_disconnect self w =
     (case game_states w (c_match_id self) of
        None \<Rightarrow> w
      | Some state \<Rightarrow>
         let state' = state\<lparr>players_ready := players_ready state - {c_user self}\<rparr>
         in if players_ready state' = {}
            then w\<lparr>game_states := (game_states w)(c_match_id self := None)\<rparr>
            else set_state (c_match_id self) state' w)"

text \<open>
  The event handler \<open>game_start\<close> of every consumer in the group sends the frame, sleeps
  three seconds and calls \<open>start_round\<close>: it leaves \<open>StartRoundAfter3\<close> behind.
\<close>

definition start_round :: "consumer \<Rightarrow> real \<Rightarrow> world \<Rightarrow> outcome" where
  "start_round self now w =
     (case game_states w (c_match_id self) of
        None \<Rightarrow> (Inr None, w)
      | Some state \<Rightarrow>
         let state' = state\<lparr>current_round := current_round state + 1,
                            round_start_time := Some now\<rparr>;
             w1 = set_state (c_match_id self) state' w
         in (case get_round_question (c_match_id self) (current_round state') (w_db w1) of
               None \<Rightarrow> (Inr None, w1)
             | Some question_data \<Rightarrow>
                 let w2 = w1\<lparr>w_db := update_match_round (c_match_id self)
                                        (current_round state') (w_db w1)\<rparr>;
                     w3 = group_send (c_match_id self)
                            (QuestionStart (current_round state') question_data) w2
                 in (Inr (Some (RoundTimeoutAfter15 (current_round state'))), w3)))"

definition end_round :: "consumer \<Rightarrow> world \<Rightarrow> outcome" where
  "end_round self w =
     (case game_states w (c_match_id self) of
        None \<Rightarrow> (Inr None, w)
      | Some state \<Rightarrow>
         let current = current_round state;
             answers = answers_of (round_answers state) current
         in (case calculate_round_result (c_match_id self) current answers (w_db w) of
               Inl e \<Rightarrow> (Inl e, w)
             | Inr (round_result, d') \<Rightarrow>
                 let w1 = group_send (c_match_id self) (RoundEnd current round_result)
                            (w\<lparr>w_db := d'\<rparr>)
                 in (case matches d' (c_match_id self) of
                       None \<Rightarrow> (Inl DoesNotExist, w1)
                     | Some match \<Rightarrow>
                         if current \<ge> total_rounds match
                         then (Inr (Some EndMatchAfter2), w1)
                         else (Inr (Some StartRoundAfter3), w1))))"

definition end_match :: "consumer \<Rightarrow> world \<Rightarrow> outcome" where
  "end_match self w =
     (case finalize_match (c_match_id self) (w_db w) of
        Inl e \<Rightarrow> (Inl e, w)
      | Inr (match_result, d') \<Rightarrow>
         let w1 = group_send (c_match_id self) (MatchEnd match_result) (w\<lparr>w_db := d'\<rparr>)
         in (Inr None, w1\<lparr>game_states := (game_states w1)(c_match_id self := None)\<rparr>))"

definition round_timeout :: "consumer \<Rightarrow> int \<Rightarrow> world \<Rightarrow> outcome" where
  "round_timeout self round_number w =
     (case game_states w (c_match_id self) of
        None \<Rightarrow> (Inr None, w)
      | Some state \<Rightarrow>
         if current_round state \<noteq> round_number then (Inr None, w)
         else if has_key (round_answers state) round_number
         then (if length (answers_of (round_answers state) round_number) < 2
               then end_round self w
               else (Inr None, w))
         else (Inr None, w))"

definition handle_ready :: "consumer \<Rightarrow> real \<Rightarrow> world \<Rightarrow> outcome" where
  "handle_ready self now w =
     (case game_states w (c_match_id self) of
        None \<Rightarrow> (Inr None, w)
      | Some state \<Rightarrow>
         if card (players_ready state) \<ge> 2 then start_round self now w else (Inr None, w))"

definition handle_answer :: "consumer \<Rightarrow> answer_frame \<Rightarrow> world \<Rightarrow> outcome" where
  "handle_answer self data w =
     (let answer = f_answer data;
          time_taken = (case f_time data of None \<Rightarrow> 15 | Some t \<Rightarrow> t)
      in case game_states w (c_match_id self) of
           None \<Rightarrow> (Inr None, w)
         | Some state \<Rightarrow>
            let current = current_round state;
                ra1 = (if has_key (round_answers state) current then round_answers state
                       else AList.update current [] (round_answers state));
                w1 = set_state (c_match_id self) (state\<lparr>round_answers := ra1\<rparr>) w
            in if has_key (answers_of ra1 current) (c_user self) then (Inr None, w1)
               else
                 let given = AList.update (c_user self)
                               \<lparr>a_answer = answer, a_time = time_taken\<rparr>
                               (answers_of ra1 current);
                     ra2 = AList.update current given ra1;
                     w2 = set_state (c_match_id self) (state\<lparr>round_answers := ra2\<rparr>) w;
                     w3 = group_send (c_match_id self) (AnswerSubmitted (c_user self)) w2
                 in if length given \<ge> 2 then end_round self w3 else (Inr None, w3))"

definition handle_emoji :: "consumer \<Rightarrow> string option \<Rightarrow> world \<Rightarrow> outcome" where
  "handle_emoji self emoji w =
     (case game_states w (c_match_id self) of
        None \<Rightarrow> (Inr None, w)
      | Some state \<Rightarrow>
         let sent = (case emojis_sent state (c_user self) of None \<Rightarrow> 0 | Some n \<Rightarrow> n);
             state1 = state\<lparr>emojis_sent := (emojis_sent state)(c_user self \<mapsto> sent)\<rparr>
         in if sent \<ge> 5 then (Inr None, set_state (c_match_id self) state1 w)
            else
              let state2 = state1\<lparr>emojis_sent := (emojis_sent state1)(c_user self \<mapsto> sent + 1)\<rparr>;
                  w1 = set_state (c_match_id self) state2 w
              in (Inr None, group_send (c_match_id self) (EmojiReceived (c_user self) emoji) w1))"

text \<open>
  The event handler \<open>emoji_received\<close> of a consumer in the room group: the frame it sends
  to its own client for a group event, if any.
\<close>

definition emoji_received :: "consumer \<Rightarrow> group_event \<Rightarrow> string option option" where
  "emoji_received self ev =
     (case ev of
        EmojiReceived sender emoji \<Rightarrow> if sender \<noteq> c_user self then Some emoji else None
      | _ \<Rightarrow> None)"

datatype inbound = Ready | Answer answer_frame | Emoji "string option" | Other

definition receive :: "consumer \<Rightarrow> real \<Rightarrow> inbound \<Rightarrow> world \<Rightarrow> outcome" where
  "receive self now frame w =
     (case frame of
        Ready \<Rightarrow> handle_ready self now w
      | Answer data \<Rightarrow> handle_answer self data w
      | Emoji e \<Rightarrow> handle_emoji self e w
      | Other \<Rightarrow> (Inr None, w))"

definition resume :: "consumer \<Rightarrow> real \<Rightarrow> continuation \<Rightarrow> world \<Rightarrow> outcome" where
  "resume self now k w =
     (case k of
        StartRoundAfter3 \<Rightarrow> start_round self now w
      | EndMatchAfter2 \<Rightarrow> end_match self w
      | RoundTimeoutAfter15 n \<Rightarrow> round_timeout self n w)"

section \<open>The handlers of a matchmaking session (MatchmakingConsumer)\<close>

definition set_user_online :: "uid \<Rightarrow> bool \<Rightarrow> db \<Rightarrow> db" where
  "set_user_online u b d =
     d\<lparr>users := (\<lambda>i. if i = u then map_option (\<lambda>x. x\<lparr>is_online := b\<rparr>) (users d i)
                       else users d i)\<rparr>"

definition new_round :: "question \<Rightarrow> round_row" where
  "new_round q =
     \<lparr>r_question = q, player1_answer = None, player2_answer = None,
      player1_time = None, player2_time = None, player1_score = 0, player2_score = 0\<rparr>"

fun enumerate_from :: "int \<Rightarrow> 'a list \<Rightarrow> (int \<times> 'a) list" where
  "enumerate_from i [] = []"
| "enumerate_from i (x # xs) = (i, x) # enumerate_from (i + 1) xs"

text \<open>
  \<open>shuffled\<close> is the Question table in the random order that \<open>order_by('?')\<close> returned;
  the slice \<open>[:5]\<close> keeps its first five rows, or all of them when there are fewer.
\<close>

definition create_match :: "uid \<Rightarrow> uid \<Rightarrow> question list \<Rightarrow> db \<Rightarrow> py_error + (mid \<times> db)" where
  "create_match self_id opponent_id shuffled d =
     (case users d opponent_id of
        None \<Rightarrow> Inl DoesNotExist
      | Some opponent \<Rightarrow>
         let m = match_seq d + 1;
             match = \<lparr>player1_id = opponent_id, player2_id = self_id, score1 = 0, score2 = 0,
                      winner = None, status = InProgress, m_current_round = 0,
                      total_rounds = 5\<rparr>;
             d1 = d\<lparr>matches := (matches d)(m \<mapsto> match), match_seq := m\<rparr>;
             qs = take 5 shuffled;
             d2 = d1\<lparr>rounds := rounds d1 @
                     map (\<lambda>(i, q). ((m, i), new_round q)) (enumerate_from 1 qs)\<rparr>
         in Inr (m, d2\<lparr>users := set_in_game True [self_id, opponent_id] (users d2)\<rparr>))"

text \<open>
  \<open>get_match_data\<close> builds the entries of player 1 and then of player 2, each with
  \<open>'avatar': match.playerN.avatar.url if match.playerN.avatar else None\<close>. The avatar is
  a string or \<open>None\<close>: when it is \<open>None\<close> or empty the entry is \<open>None\<close>; when it is a
  non-empty string the condition is true, and \<open>.url\<close> on a string raises AttributeError.
\<close>

definition has_avatar :: "user \<Rightarrow> bool" where
  "has_avatar u = (case avatar u of None \<Rightarrow> False | Some a \<Rightarrow> a \<noteq> [])"

definition get_match_data :: "mid \<Rightarrow> db \<Rightarrow> py_error + match_data" where
  "get_match_data m d =
     (case matches d m of
        None \<Rightarrow> Inl DoesNotExist
      | Some match \<Rightarrow>
     (case users d (player1_id match) of
        None \<Rightarrow> Inl DoesNotExist
      | Some p1 \<Rightarrow>
     (case users d (player2_id match) of
        None \<Rightarrow> Inl DoesNotExist
      | Some p2 \<Rightarrow>
         if has_avatar p1 then Inl AttributeError
         else if has_avatar p2 then Inl AttributeError
         else
           Inr \<lparr>md_id = m,
                md_player1 = \<lparr>pi_id = player1_id match, pi_username = username p1,
                              pi_avatar = None, pi_rating = rating p1\<rparr>,
                md_player2 = \<lparr>pi_id = player2_id match, pi_username = username p2,
                              pi_avatar = None, pi_rating = rating p2\<rparr>,
                md_total_rounds = total_rounds match\<rparr>)))"

text \<open>
  How \<open>connect\<close> ended: the connection was closed (anonymous user), the caller was paired
  into the match with the given id (both sides get \<open>match_found\<close>), or the caller was
  written into the waiting list (\<open>matchmaking_start\<close>). The code has no other exit.
\<close>

datatype connect_result = Closed | Paired mid | Parked

definition send_to :: "channel \<Rightarrow> mm_frame \<Rightarrow> world \<Rightarrow> world" where
  "send_to ch fr w = w\<lparr>mm_sent := mm_sent w @ [(ch, fr)]\<rparr>"

definition park :: "uid \<Rightarrow> channel \<Rightarrow> world \<Rightarrow> (py_error + connect_result) \<times> world" where
  "park u channel_name w =
     (Inr Parked,
      send_to channel_name MatchmakingStart
        (w\<lparr>waiting_players := AList.update u channel_name (waiting_players w)\<rparr>))"

definition mm_connect ::
  "uid option \<Rightarrow> channel \<Rightarrow> question list \<Rightarrow> world \<Rightarrow> (py_error + connect_result) \<times> world" where
  "mm_connect scope_user channel_name shuffled w =
     (case scope_user of
        None \<Rightarrow> (Inr Closed, w)
      | Some u \<Rightarrow>
         let w1 = w\<lparr>w_db := set_user_online u True (w_db w)\<rparr>
         in (case waiting_players w1 of
               [] \<Rightarrow> park u channel_name w1
             | (opponent_id, opponent_channel) # rest \<Rightarrow>
                 if opponent_id \<noteq> u then
                   let w2 = w1\<lparr>waiting_players := AList.delete opponent_id (waiting_players w1)\<rparr>
                   in (case create_match u opponent_id shuffled (w_db w2) of
                         Inl e \<Rightarrow> (Inl e, w2)
                       | Inr (m, d') \<Rightarrow>
                           let w3 = w2\<lparr>w_db := d'\<rparr>
                           in (case get_match_data m d' of
                                 Inl e \<Rightarrow> (Inl e, w3)
                               | Inr match_data \<Rightarrow>
                                   (Inr (Paired m),
                                    send_to channel_name (MatchFound match_data)
                                      (send_to opponent_channel (MatchFound match_data) w3))))
                 else park u channel_name w1))"

definition mm_disconnect :: "uid option \<Rightarrow> world \<Rightarrow> world" where
  "mm_disconnect scope_user w =
     (case scope_user of
        None \<Rightarrow> w
      | Some u \<Rightarrow>
         let w1 = w\<lparr>waiting_players := AList.delete u (waiting_players w)\<rparr>
         in w1\<lparr>w_db := set_user_online u False (w_db w1)\<rparr>)"

definition mm_cancel :: "uid \<Rightarrow> channel \<Rightarrow> world \<Rightarrow> world" where
  "mm_cancel u channel_name w =
     send_to channel_name MatchmakingCancelled
       (w\<lparr>waiting_players := AList.delete u (waiting_players w)\<rparr>)"

section \<open>Observations\<close>




text \<open>Whether the row of user \<open>x\<close> holds a non-empty avatar.\<close>

definition avatar_set :: "db \<Rightarrow> uid \<Rightarrow> bool" where
  "avatar_set d x = (case users d x of None \<Rightarrow> False | Some u \<Rightarrow> has_avatar u)"

text \<open>
  A run of inbound frames: each frame is handled by \<open>receive\<close> of the session it arrived
  on, one after the other, at the given server times.
\<close>

fun run_frames :: "(consumer \<times> real \<times> inbound) list \<Rightarrow> world \<Rightarrow> world" where
  "run_frames [] w = w"
| "run_frames ((c, now, f) # fs) w = run_frames fs (snd (receive c now f w))"

text \<open>
  The \<open>emoji_received\<close> frames that session \<open>c\<close>, a member of the room group of its match,
  has sent to its client for the emojis of sender \<open>s\<close>; the number of emojis the match
  state has counted for a user; and the number of emoji frames in a run that come from
  sessions of the user and match of \<open>self\<close>.
\<close>

definition forwarded_in :: "consumer \<Rightarrow> uid \<Rightarrow> (mid \<times> group_event) list \<Rightarrow> string option list" where
  "forwarded_in c s evs =
     List.map_filter
       (\<lambda>(m, ev). case ev of
           EmojiReceived s' e \<Rightarrow>
             if m = c_match_id c \<and> s' = s then emoji_received c ev else None
         | _ \<Rightarrow> None) evs"

definition forwarded :: "consumer \<Rightarrow> uid \<Rightarrow> world \<Rightarrow> string option list" where
  "forwarded c s w = forwarded_in c s (outbox w)"

definition sent_count :: "game_state \<Rightarrow> uid \<Rightarrow> nat" where
  "sent_count st u = (case emojis_sent st u of None \<Rightarrow> 0 | Some n \<Rightarrow> n)"

definition is_emoji :: "inbound \<Rightarrow> bool" where
  "is_emoji f = (case f of Emoji e \<Rightarrow> True | _ \<Rightarrow> False)"

definition emoji_frames_of :: "consumer \<Rightarrow> (consumer \<times> real \<times> inbound) list \<Rightarrow> nat" where
  "emoji_frames_of self fs =
     length (filter (\<lambda>(c, now, f). c_user c = c_user self \<and> c_match_id c = c_match_id self
                                   \<and> is_emoji f) fs)"

section \<open>Example runs\<close>

text \<open>
  Two users and five questions; user 1 waits first, user 2 connects and is paired with
  it into match 1; both open their game sessions; the first round starts at server
  time 0.
\<close>

definition qn :: "int \<Rightarrow> string \<Rightarrow> question" where
  "qn n c = \<lparr>q_id = n, q_text = ''Q'', correct_option = c, explanation = ''E''\<rparr>"

definition ex_questions :: "question list" where
  "ex_questions = [qn 1 ''A'', qn 2 ''B'', qn 3 ''C'', qn 4 ''A'', qn 5 ''D'']"

definition new_user :: "string \<Rightarrow> int \<Rightarrow> user" where
  "new_user name r =
     \<lparr>username = name, avatar = None, rating = r, level = r div 200 + 1, wins = 0,
      losses = 0, is_online = False, is_in_game = False\<rparr>"

definition ex_db0 :: db where
  "ex_db0 =
     \<lparr>users = [1 \<mapsto> new_user ''alice'' 1000, 2 \<mapsto> new_user ''bob'' 10],
      matches = Map.empty, rounds = [], history = [], questions = ex_questions,
      match_seq = 0\<rparr>"

definition ex_w0 :: world where
  "ex_w0 =
     \<lparr>w_db = ex_db0, game_states = Map.empty, waiting_players = [], outbox = [],
      mm_sent = []\<rparr>"

definition ex_paired :: world where
  "ex_paired =
     snd (mm_connect (Some 2) ''ch2'' ex_questions
       (snd (mm_connect (Some 1) ''ch1'' ex_questions ex_w0)))"

definition ex_lobby :: world where
  "ex_lobby = snd (game_connect (Some 2) 1 (snd (game_connect (Some 1) 1 ex_paired)))"

definition alice :: consumer where
  "alice = \<lparr>c_user = 1, c_match_id = 1\<rparr>"

definition bob :: consumer where
  "bob = \<lparr>c_user = 2, c_match_id = 1\<rparr>"

text \<open>
  The world when round 1 of match 1 has just started at server time 0
  (\<open>ex_round1_reached\<close> below: it is what \<open>start_round\<close> makes of \<open>ex_lobby\<close>).
\<close>

definition ex_match_data :: match_data where
  "ex_match_data =
     \<lparr>md_id = 1,
      md_player1 = \<lparr>pi_id = 1, pi_username = ''alice'', pi_avatar = None,
                    pi_rating = 1000\<rparr>,
      md_player2 = \<lparr>pi_id = 2, pi_username = ''bob'', pi_avatar = None, pi_rating = 10\<rparr>,
      md_total_rounds = 5\<rparr>"

definition ex_match :: match_row where
  "ex_match =
     \<lparr>player1_id = 1, player2_id = 2, score1 = 0, score2 = 0, winner = None,
      status = InProgress, m_current_round = 1, total_rounds = 5\<rparr>"

definition ex_state1 :: game_state where
  "ex_state1 =
     \<lparr>players_ready = {1, 2}, current_round = 1, round_answers = [],
      round_start_time = Some 0, emojis_sent = Map.empty\<rparr>"

definition ex_round1 :: world where
  "ex_round1 =
     \<lparr>w_db =
        \<lparr>users = [1 \<mapsto> (new_user ''alice'' 1000)\<lparr>is_online := True, is_in_game := True\<rparr>,
                  2 \<mapsto> (new_user ''bob'' 10)\<lparr>is_online := True, is_in_game := True\<rparr>],
         matches = [1 \<mapsto> ex_match],
         rounds = [((1, 1), new_round (qn 1 ''A'')), ((1, 2), new_round (qn 2 ''B'')),
                   ((1, 3), new_round (qn 3 ''C'')), ((1, 4), new_round (qn 4 ''A'')),
                   ((1, 5), new_round (qn 5 ''D''))],
         history = [], questions = ex_questions, match_seq = 1\<rparr>,
      game_states = [1 \<mapsto> ex_state1],
      waiting_players = [],
      outbox = [(1, GameStart), (1, QuestionStart 1 (qn 1 ''A''))],
      mm_sent = [(''ch1'', MatchmakingStart), (''ch1'', MatchFound ex_match_data),
                 (''ch2'', MatchFound ex_match_data)]\<rparr>"

definition frame :: "string \<Rightarrow> real \<Rightarrow> answer_frame" where
  "frame a t = \<lparr>f_answer = Some a, f_time = Some t\<rparr>"

text \<open>
  A round in which both players answer in time, followed by the start of the next
  round at server time \<open>now\<close>: the second answer ends the round, and the continuation
  after the reveal pause calls \<open>start_round\<close>.
\<close>

definition play_round :: "answer_frame \<Rightarrow> answer_frame \<Rightarrow> real \<Rightarrow> world \<Rightarrow> world" where
  "play_round fa fb now w =
     snd (start_round bob now (snd (handle_answer bob fb (snd (handle_answer alice fa w)))))"

definition ex_round5 :: world where
  "ex_round5 =
     play_round (frame ''A'' 1) (frame ''C'' 10) 40
       (play_round (frame ''B'' 4) (frame ''C'' 2) 30
         (play_round (frame ''B'' 5) (frame ''B'' 8) 20
           (play_round (frame ''A'' 2) (frame ''A'' 3) 10 ex_round1)))"

text \<open>Round 1 (correct option A): user 1 answers A reporting 20 seconds, user 2 answers A.\<close>

definition ex_slow :: world where
  "ex_slow =
     snd (handle_answer bob (frame ''A'' 2)
       (snd (handle_answer alice (frame ''A'' 20) ex_round1)))"





text \<open>
  The fifth and last round of the match: user 1 answers; the timer of round 5 fires and
  ends the round, leaving the continuation that finalises the match after two seconds;
  within those two seconds the first answer of user 2 arrives and ends the round once
  more, leaving a second such continuation; then both continuations run.
\<close>

definition ex_final_answered :: world where
  "ex_final_answered = snd (handle_answer alice (frame ''D'' 6) ex_round5)"

definition ex_final_timeout :: outcome where
  "ex_final_timeout = round_timeout bob 5 ex_final_answered"

definition ex_final_late :: outcome where
  "ex_final_late = handle_answer bob (frame ''D'' 4) (snd ex_final_timeout)"

definition ex_finalised :: outcome where
  "ex_finalised = end_match bob (snd ex_final_late)"

definition ex_finalised_again :: outcome where
  "ex_finalised_again = end_match bob (snd ex_finalised)"

text \<open>A database with one finished match between a user rated 1000 and a user rated 10.\<close>

definition ex_db_played :: db where
  "ex_db_played =
     \<lparr>users = [1 \<mapsto> new_user ''alice'' 1000, 2 \<mapsto> new_user ''bob'' 10],
      matches = [1 \<mapsto> ex_match\<lparr>score1 := 340, score2 := 280, m_current_round := 5\<rparr>],
      rounds = [], history = [], questions = ex_questions, match_seq = 1\<rparr>"

text \<open>
  User 1 is waiting and opens a second matchmaking session; and user 1, playing match 1,
  opens a matchmaking session.
\<close>

definition ex_requeue :: "(py_error + connect_result) \<times> world" where
  "ex_requeue =
     mm_connect (Some 1) ''ch1b'' ex_questions
       (snd (mm_connect (Some 1) ''ch1'' ex_questions ex_w0))"

definition ex_connect_in_game :: "(py_error + connect_result) \<times> world" where
  "ex_connect_in_game = mm_connect (Some 1) ''ch1c'' ex_questions ex_round1"

text \<open>The pairing of the two users when the Question table has three rows.\<close>

definition ex_few :: "(py_error + connect_result) \<times> world" where
  "ex_few =
     mm_connect (Some 2) ''ch2'' (take 3 ex_questions)
       (snd (mm_connect (Some 1) ''ch1'' (take 3 ex_questions)
          (ex_w0\<lparr>w_db := ex_db0\<lparr>questions := take 3 ex_questions\<rparr>\<rparr>)))"

text \<open>User 1 sends six emoji frames in round 1 of match 1.\<close>

definition ex_six_emojis :: "(consumer \<times> real \<times> inbound) list" where
  "ex_six_emojis =
     [(alice, 1, Emoji (Some ''a'')), (alice, 2, Emoji (Some ''b'')),
      (alice, 3, Emoji (Some ''c'')), (alice, 4, Emoji (Some ''d'')),
      (alice, 5, Emoji (Some ''e'')), (alice, 6, Emoji (Some ''f''))]"

text \<open>
  User 1 sends five emoji frames in round 1; both players disconnect, which removes the
  state of the match, and connect again to the same match, which creates a new one;
  then user 1 sends five more emoji frames.
\<close>

definition ex_five_sent :: world where
  "ex_five_sent = run_frames (take 5 ex_six_emojis) ex_round1"

definition ex_both_left :: world where
  "ex_both_left = game_disconnect bob (game_disconnect alice ex_five_sent)"

definition ex_both_back :: world where
  "ex_both_back = snd (game_connect (Some 2) 1 (snd (game_connect (Some 1) 1 ex_both_left)))"

definition ex_ten_sent :: world where
  "ex_ten_sent = run_frames (take 5 ex_six_emojis) ex_both_back"

text \<open>The pairing of the two users when the waiting user 1 has an avatar.\<close>

definition ex_avatar :: "(py_error + connect_result) \<times> world" where
  "ex_avatar =
     mm_connect (Some 2) ''ch2'' ex_questions
       (snd (mm_connect (Some 1) ''ch1'' ex_questions
          (ex_w0\<lparr>w_db := ex_db0\<lparr>users :=
             [1 \<mapsto> (new_user ''alice'' 1000)\<lparr>avatar := Some ''https://a''\<rparr>,
              2 \<mapsto> new_user ''bob'' 10]\<rparr>\<rparr>)))"

section \<open>Basic facts about the handlers\<close>

lemmas ex_defs = qn_def ex_questions_def new_user_def ex_db0_def ex_w0_def ex_paired_def
  ex_lobby_def alice_def bob_def frame_def ex_match_data_def ex_match_def ex_state1_def
  ex_round1_def new_round_def

lemmas mm_defs = mm_connect_def park_def send_to_def set_user_online_def create_match_def
  get_match_data_def set_in_game_def has_avatar_def

lemmas game_defs = game_connect_def verify_player_def initial_state_def set_state_def
  group_send_def start_round_def get_round_question_def update_match_round_def
  handle_answer_def end_round_def calculate_round_result_def has_key_def answers_of_def
  entry_answer_def entry_time_def calculate_score_def round_timeout_def receive_def

lemma ex_round1_reached:
  "start_round alice 0 ex_lobby = (Inr (Some (RoundTimeoutAfter15 1)), ex_round1)"
  by (simp add: ex_defs mm_defs game_defs Let_def fun_eq_iff insert_commute)

lemma end_round_game_states: "game_states (snd (end_round c w)) = game_states w"
  by (simp add: end_round_def group_send_def Let_def split: option.splits sum.splits prod.splits)



section \<open>Scoring of a round\<close>

text \<open>
  Claim C1 as stated says that a correct answer with a latency over 15 scores 0. In the
  run \<open>ex_slow\<close> user 1 answers round 1 correctly and reports 20 seconds: the Round row
  records the latency 20 and the score 40.
\<close>

theorem C1_counterexample:
  "map_option (\<lambda>r. (player1_answer r, player1_time r, player1_score r))
     (map_of (rounds (w_db ex_slow)) (1, 1)) = Some (Some ''A'', Some 20, 40)"
  by (simp add: ex_slow_def ex_defs game_defs Let_def)

text \<open>
  Claim C1, amended: for every round and both players, the score that
  \<open>calculate_round_result\<close> records is 0 for an answer that is not the correct option
  (a missing answer included), and for a correct answer it is 100 when the latency is at
  most 3, 70 when it is at most 7 and 40 for every larger latency, also above 15. The
  latency is the one stored with the answer, or 15 when the player gave none.
\<close>

theorem C1_round_scores:
  assumes "map_of (rounds d) (m, n) = Some r" and "matches d m = Some mt"
  shows "\<exists>res d' r'.
           calculate_round_result m n answers d = Inr (res, d') \<and>
           map_of (rounds d') (m, n) = Some r' \<and>
           player1_score r' =
             (let a = map_of answers (player1_id mt)
              in if entry_answer a \<noteq> Some (correct_option (r_question r)) then 0
                 else if entry_time a \<le> 3 then 100
                 else if entry_time a \<le> 7 then 70 else 40) \<and>
           player2_score r' =
             (let a = map_of answers (player2_id mt)
              in if entry_answer a \<noteq> Some (correct_option (r_question r)) then 0
                 else if entry_time a \<le> 3 then 100
                 else if entry_time a \<le> 7 then 70 else 40)"
  using assms
  by (simp add: calculate_round_result_def Let_def calculate_score_def update_conv')

text \<open>The amended claim C1 on round 1 of the example match.\<close>

theorem C1_round_scores_witness:
  "map_of (rounds (w_db ex_round1)) (1, 1) = Some (new_round (qn 1 ''A'')) \<and>
   matches (w_db ex_round1) 1 = Some ex_match \<and>
   (\<exists>res d' r'.
      calculate_round_result 1 1
        [(1, \<lparr>a_answer = Some ''A'', a_time = 20\<rparr>), (2, \<lparr>a_answer = Some ''B'', a_time = 2\<rparr>)]
        (w_db ex_round1) = Inr (res, d') \<and>
      map_of (rounds d') (1, 1) = Some r' \<and> player1_score r' = 40 \<and> player2_score r' = 0)"
proof -
  have h1: "map_of (rounds (w_db ex_round1)) (1, 1) = Some (new_round (qn 1 ''A''))"
    by (simp add: ex_round1_def)
  have h2: "matches (w_db ex_round1) 1 = Some ex_match"
    by (simp add: ex_round1_def)
  show ?thesis
    using h1 h2 C1_round_scores [OF h1 h2,
        of "[(1, \<lparr>a_answer = Some ''A'', a_time = 20\<rparr>), (2, \<lparr>a_answer = Some ''B'', a_time = 2\<rparr>)]"]
    by (simp add: ex_match_def new_round_def qn_def entry_answer_def entry_time_def)
qed

section \<open>The latency that is scored\<close>




section \<open>The end of a round\<close>

text \<open>
  Claim C3 says the round ends when its timer expires, also when no answer was
  submitted. Evaluating the code on that input: in \<open>ex_round1\<close> round 1 is current and
  nobody has answered; the timer of round 1 fires and \<open>round_timeout\<close> returns without
  calling \<open>end_round\<close>, leaving the world as it was (no score, no \<open>round_end\<close>, no
  continuation that would start the next round).
\<close>

theorem C3_timeout_without_answers:
  "map_option current_round (game_states ex_round1 1) = Some 1 \<and>
   round_timeout alice 1 ex_round1 = (Inr None, ex_round1)"
  by (simp add: ex_defs game_defs Let_def)

section \<open>Accepting answers\<close>




section \<open>Finalising a match\<close>

lemmas fin_defs = finalize_match_def update_rating_def set_in_game_def match_rounds_def review_def

text \<open>The world \<open>ex_round5\<close>, after four rounds in which both players answered in time.\<close>

lemma ex_round5_facts:
  "game_states ex_round5 1 =
     Some (ex_state1\<lparr>current_round := 5, round_start_time := Some 40,
       round_answers :=
         [(1, [(1, \<lparr>a_answer = Some ''A'', a_time = 2\<rparr>), (2, \<lparr>a_answer = Some ''A'', a_time = 3\<rparr>)]),
          (2, [(1, \<lparr>a_answer = Some ''B'', a_time = 5\<rparr>), (2, \<lparr>a_answer = Some ''B'', a_time = 8\<rparr>)]),
          (3, [(1, \<lparr>a_answer = Some ''B'', a_time = 4\<rparr>), (2, \<lparr>a_answer = Some ''C'', a_time = 2\<rparr>)]),
          (4, [(1, \<lparr>a_answer = Some ''A'', a_time = 1\<rparr>), (2, \<lparr>a_answer = Some ''C'', a_time = 10\<rparr>)])]\<rparr>)"
  "matches (w_db ex_round5) 1 = Some (ex_match\<lparr>score1 := 270, score2 := 240, m_current_round := 5\<rparr>)"
  "map_of (rounds (w_db ex_round5)) (1, 5) = Some (new_round (qn 5 ''D''))"
  "users (w_db ex_round5) = users (w_db ex_round1)"
  "history (w_db ex_round5) = []"
  by (simp_all add: ex_round5_def play_round_def ex_defs game_defs Let_def)

text \<open>
  Claim C8 says that a completed match has exactly two MatchHistory rows. Evaluating the
  code on the run \<open>ex_finalised_again\<close>: in the last round the timer ends the round with
  one answer, the late first answer of the other player ends it a second time, and each
  end leaves a continuation that finalises the match. After the first finalisation the
  match is completed and has two rows; the second finalisation inserts two more, so the
  completed match has four.
\<close>

theorem C8_double_finalisation:
  "fst ex_final_timeout = Inr (Some EndMatchAfter2) \<and>
   fst ex_final_late = Inr (Some EndMatchAfter2) \<and>
   map_option status (matches (w_db (snd ex_finalised)) 1) = Some Completed \<and>
   length (filter (\<lambda>h. h_match h = 1) (history (w_db (snd ex_finalised)))) = 2 \<and>
   length (filter (\<lambda>h. h_match h = 1) (history (w_db (snd ex_finalised_again)))) = 4"
  by (simp add: ex_finalised_again_def ex_finalised_def ex_final_late_def ex_final_timeout_def
      ex_final_answered_def ex_round5_facts end_match_def fin_defs
      handle_answer_def end_round_def calculate_round_result_def has_key_def answers_of_def
      entry_answer_def entry_time_def calculate_score_def round_timeout_def set_state_def
      group_send_def alice_def bob_def frame_def ex_match_def ex_state1_def new_round_def qn_def
      ex_round1_def new_user_def Let_def update_conv')

text \<open>
  One call of \<open>finalize_match\<close> by itself appends exactly two rows for the match, with
  mirrored scores, opposite \<open>is_winner\<close> unless the scores are equal, and for equal
  scores both \<open>is_winner\<close> false and both \<open>rating_change\<close> zero.
\<close>

lemma finalize_match_history:
  assumes "matches d m = Some mt"
      and "users d (player1_id mt) = Some u1" and "users d (player2_id mt) = Some u2"
  shows "\<exists>res d' h1 h2.
           finalize_match m d = Inr (res, d') \<and> history d' = history d @ [h1, h2] \<and>
           h_match h1 = m \<and> h_match h2 = m \<and>
           h_user h1 = player1_id mt \<and> h_opponent h1 = player2_id mt \<and>
           h_user h2 = player2_id mt \<and> h_opponent h2 = player1_id mt \<and>
           user_score h1 = score1 mt \<and> opponent_score h1 = score2 mt \<and>
           user_score h2 = score2 mt \<and> opponent_score h2 = score1 mt \<and>
           (if score1 mt = score2 mt
            then \<not> is_winner h1 \<and> \<not> is_winner h2 \<and> rating_change h1 = 0 \<and> rating_change h2 = 0
            else is_winner h1 = (\<not> is_winner h2) \<and> is_winner h1 = (score1 mt > score2 mt))"
  using assms by (simp add: finalize_match_def Let_def)

text \<open>
  Claim C7: for every finalisation of a match between two different users, the winner's
  rating grows by 20 and its wins by 1, the loser's rating becomes \<open>max 0 (rating - 15)\<close>
  and its losses grow by 1, a draw changes neither player's rating, wins or losses;
  after every update the level is \<open>rating div 200 + 1\<close>, and ratings that were not
  negative stay so.
\<close>

theorem C7_rating_policy:
  assumes "matches d m = Some mt"
      and "users d (player1_id mt) = Some u1" and "users d (player2_id mt) = Some u2"
      and "player1_id mt \<noteq> player2_id mt"
      and "0 \<le> rating u1" and "0 \<le> rating u2"
  shows "\<exists>res d' v1 v2.
           finalize_match m d = Inr (res, d') \<and>
           users d' (player1_id mt) = Some v1 \<and> users d' (player2_id mt) = Some v2 \<and>
           0 \<le> rating v1 \<and> 0 \<le> rating v2 \<and>
           (if score1 mt > score2 mt then
              rating v1 = rating u1 + 20 \<and> wins v1 = wins u1 + 1 \<and> losses v1 = losses u1 \<and>
              rating v2 = max 0 (rating u2 - 15) \<and> losses v2 = losses u2 + 1 \<and> wins v2 = wins u2 \<and>
              level v1 = rating v1 div 200 + 1 \<and> level v2 = rating v2 div 200 + 1
            else if score2 mt > score1 mt then
              rating v2 = rating u2 + 20 \<and> wins v2 = wins u2 + 1 \<and> losses v2 = losses u2 \<and>
              rating v1 = max 0 (rating u1 - 15) \<and> losses v1 = losses u1 + 1 \<and> wins v1 = wins u1 \<and>
              level v1 = rating v1 div 200 + 1 \<and> level v2 = rating v2 div 200 + 1
            else
              rating v1 = rating u1 \<and> wins v1 = wins u1 \<and> losses v1 = losses u1 \<and>
              level v1 = level u1 \<and>
              rating v2 = rating u2 \<and> wins v2 = wins u2 \<and> losses v2 = losses u2 \<and>
              level v2 = level u2)"
  using assms by (simp add: finalize_match_def Let_def update_rating_def set_in_game_def)

text \<open>Claim C7 on a match won 340 to 280 by a user rated 1000 against a user rated 10.\<close>

theorem C7_rating_policy_witness:
  "matches ex_db_played 1 = Some (ex_match\<lparr>score1 := 340, score2 := 280, m_current_round := 5\<rparr>) \<and>
   users ex_db_played 1 = Some (new_user ''alice'' 1000) \<and>
   users ex_db_played 2 = Some (new_user ''bob'' 10) \<and>
   (\<exists>res d' v1 v2.
      finalize_match 1 ex_db_played = Inr (res, d') \<and>
      users d' 1 = Some v1 \<and> users d' 2 = Some v2 \<and>
      rating v1 = 1020 \<and> wins v1 = 1 \<and> level v1 = 6 \<and>
      rating v2 = 0 \<and> losses v2 = 1 \<and> level v2 = 1)"
proof -
  let ?mt = "ex_match\<lparr>score1 := 340, score2 := 280, m_current_round := 5\<rparr>"
  have h1: "matches ex_db_played 1 = Some ?mt"
    by (simp add: ex_db_played_def)
  have h2: "users ex_db_played (player1_id ?mt) = Some (new_user ''alice'' 1000)"
    by (simp add: ex_db_played_def ex_match_def)
  have h3: "users ex_db_played (player2_id ?mt) = Some (new_user ''bob'' 10)"
    by (simp add: ex_db_played_def ex_match_def)
  have h4: "player1_id ?mt \<noteq> player2_id ?mt"
    by (simp add: ex_match_def)
  have h5: "0 \<le> rating (new_user ''alice'' 1000)" and h6: "0 \<le> rating (new_user ''bob'' 10)"
    by (simp_all add: new_user_def)
  show ?thesis
    using h1 h2 h3 C7_rating_policy [OF h1 h2 h3 h4 h5 h6]
    by (auto simp: ex_match_def new_user_def)
qed

text \<open>
  Claim C10: for every finalisation that is not a draw, if the loser \<open>l\<close> had a rating
  \<open>r\<close> with \<open>0 \<le> r < 15\<close>, the MatchHistory row inserted for the loser records
  \<open>rating_change = -15\<close> while the rating applied changes by \<open>-r\<close> only, so the recorded
  change differs from the new rating minus the old one.
\<close>

theorem C10_recorded_change_differs:
  assumes "matches d m = Some mt"
      and "users d (player1_id mt) = Some u1" and "users d (player2_id mt) = Some u2"
      and "player1_id mt \<noteq> player2_id mt"
      and "score1 mt \<noteq> score2 mt"
      and "l = (if score1 mt > score2 mt then player2_id mt else player1_id mt)"
      and "users d l = Some ul" and "0 \<le> rating ul" and "rating ul < 15"
  shows "\<exists>res d' vl.
           finalize_match m d = Inr (res, d') \<and> users d' l = Some vl \<and>
           rating vl - rating ul = - rating ul \<and>
           map rating_change (filter (\<lambda>h. h_user h = l) (drop (length (history d)) (history d')))
             = [- 15] \<and>
           - 15 \<noteq> rating vl - rating ul"
  using assms
  by (auto simp: finalize_match_def Let_def update_rating_def set_in_game_def)

text \<open>Claim C10 on the same match: the loser is rated 10.\<close>

theorem C10_recorded_change_differs_witness:
  "matches ex_db_played 1 = Some (ex_match\<lparr>score1 := 340, score2 := 280, m_current_round := 5\<rparr>) \<and>
   users ex_db_played 2 = Some (new_user ''bob'' 10) \<and>
   (\<exists>res d' vl.
      finalize_match 1 ex_db_played = Inr (res, d') \<and> users d' 2 = Some vl \<and>
      rating vl - 10 = - 10 \<and>
      map rating_change (filter (\<lambda>h. h_user h = 2) (history d')) = [- 15])"
proof -
  let ?mt = "ex_match\<lparr>score1 := 340, score2 := 280, m_current_round := 5\<rparr>"
  have h1: "matches ex_db_played 1 = Some ?mt"
    by (simp add: ex_db_played_def)
  have h2: "users ex_db_played (player1_id ?mt) = Some (new_user ''alice'' 1000)"
    by (simp add: ex_db_played_def ex_match_def)
  have h3: "users ex_db_played (player2_id ?mt) = Some (new_user ''bob'' 10)"
    by (simp add: ex_db_played_def ex_match_def)
  have h4: "player1_id ?mt \<noteq> player2_id ?mt"
    by (simp add: ex_match_def)
  have h5: "score1 ?mt \<noteq> score2 ?mt"
    by (simp add: ex_match_def)
  have h6: "2 = (if score1 ?mt > score2 ?mt then player2_id ?mt else player1_id ?mt)"
    by (simp add: ex_match_def)
  have h7: "users ex_db_played 2 = Some (new_user ''bob'' 10)"
    by (simp add: ex_db_played_def)
  have h8: "0 \<le> rating (new_user ''bob'' 10)" and h9: "rating (new_user ''bob'' 10) < 15"
    by (simp_all add: new_user_def)
  have h10: "history ex_db_played = []"
    by (simp add: ex_db_played_def)
  show ?thesis
    using h1 h7 C10_recorded_change_differs [OF h1 h2 h3 h4 h5 h6 h7 h8 h9]
    by (auto simp: h10 new_user_def)
qed

section \<open>Matchmaking\<close>

text \<open>
  Claim C5 as stated says that \<open>connect\<close> fails for a caller who is already in the waiting
  queue or in a live match, and neither pairs nor parks it. In the run \<open>ex_requeue\<close> user 1
  is waiting and connects again: the call parks it again, its queue entry now holding the
  new channel, and answers \<open>matchmaking_start\<close>. In the run \<open>ex_connect_in_game\<close> user 1 is
  playing match 1 (\<open>is_in_game\<close> is set) and connects: it is parked as well.
\<close>

theorem C5_counterexample:
  "fst ex_requeue = Inr Parked \<and>
   waiting_players (snd ex_requeue) = [(1, ''ch1b'')] \<and>
   mm_sent (snd ex_requeue) = [(''ch1'', MatchmakingStart), (''ch1b'', MatchmakingStart)] \<and>
   map_option is_in_game (users (w_db ex_round1) 1) = Some True \<and>
   fst ex_connect_in_game = Inr Parked \<and>
   waiting_players (snd ex_connect_in_game) = [(1, ''ch1c'')]"
  by (simp add: ex_requeue_def ex_connect_in_game_def ex_defs mm_defs Let_def)

text \<open>
  \<open>create_match\<close> succeeds whenever the opponent's row exists, whatever the number of
  questions. \<open>get_match_data\<close>, when the match and its players exist, raises
  AttributeError if one of the two players has a non-empty avatar and returns the data
  of the match otherwise.
\<close>

lemma avatar_set_online: "avatar_set (set_user_online u b d) x = avatar_set d x"
  by (simp add: avatar_set_def set_user_online_def has_avatar_def split: option.splits)

lemma create_match_ok:
  assumes "users d opp = Some ou"
  shows "\<exists>d'. create_match u opp sh d = Inr (match_seq d + 1, d') \<and>
           matches d' (match_seq d + 1) =
             Some \<lparr>player1_id = opp, player2_id = u, score1 = 0, score2 = 0, winner = None,
                   status = InProgress, m_current_round = 0, total_rounds = 5\<rparr> \<and>
           rounds d' = rounds d @
             map (\<lambda>(i, q). ((match_seq d + 1, i), new_round q)) (enumerate_from 1 (take 5 sh)) \<and>
           (\<forall>x. users d x \<noteq> None \<longrightarrow> users d' x \<noteq> None) \<and>
           (\<forall>x. avatar_set d' x = avatar_set d x)"
  using assms
  by (simp add: create_match_def Let_def set_in_game_def avatar_set_def has_avatar_def
      split: option.splits)

lemma get_match_data_result:
  assumes "matches d m = Some mt"
      and "users d (player1_id mt) \<noteq> None" and "users d (player2_id mt) \<noteq> None"
  shows "if avatar_set d (player1_id mt) \<or> avatar_set d (player2_id mt)
         then get_match_data m d = Inl AttributeError
         else (\<exists>md. get_match_data m d = Inr md \<and> md_id md = m \<and>
                 md_total_rounds md = total_rounds mt)"
  using assms by (auto simp: get_match_data_def avatar_set_def)

text \<open>
  The pairing branch of \<open>connect\<close>: the waiting player leaves the queue and the match with
  its rounds is created; then \<open>get_match_data\<close> decides whether both channels get
  \<open>match_found\<close> or the call ends with the AttributeError and no frame.
\<close>

lemma mm_connect_pairs:
  assumes "waiting_players w = (opp, oc) # rest" and "opp \<noteq> u"
      and "users (w_db w) u \<noteq> None" and "users (w_db w) opp \<noteq> None"
  shows "\<exists>d'. w_db (snd (mm_connect (Some u) ch sh w)) = d' \<and>
           create_match u opp sh (set_user_online u True (w_db w))
             = Inr (match_seq (w_db w) + 1, d') \<and>
           waiting_players (snd (mm_connect (Some u) ch sh w))
             = AList.delete opp (waiting_players w) \<and>
           (if avatar_set (w_db w) opp \<or> avatar_set (w_db w) u
            then fst (mm_connect (Some u) ch sh w) = Inl AttributeError \<and>
                 mm_sent (snd (mm_connect (Some u) ch sh w)) = mm_sent w
            else (\<exists>md. fst (mm_connect (Some u) ch sh w) = Inr (Paired (match_seq (w_db w) + 1)) \<and>
                   mm_sent (snd (mm_connect (Some u) ch sh w))
                     = mm_sent w @ [(oc, MatchFound md), (ch, MatchFound md)] \<and>
                   md_id md = match_seq (w_db w) + 1 \<and> md_total_rounds md = 5))"
proof -
  let ?d = "set_user_online u True (w_db w)"
  from assms(4) obtain ou where "users (w_db w) opp = Some ou" by auto
  then have ou': "users ?d opp = Some ou" using assms(2) by (simp add: set_user_online_def)
  have u': "users ?d u \<noteq> None" using assms(3) by (auto simp: set_user_online_def)
  have seq: "match_seq ?d = match_seq (w_db w)" by (simp add: set_user_online_def)
  let ?m = "match_seq (w_db w) + 1"
  from create_match_ok[OF ou', of u sh] obtain d' where d':
    "create_match u opp sh ?d = Inr (?m, d')"
    "matches d' ?m =
           Some \<lparr>player1_id = opp, player2_id = u, score1 = 0, score2 = 0, winner = None,
                 status = InProgress, m_current_round = 0, total_rounds = 5\<rparr>"
    "\<forall>x. users ?d x \<noteq> None \<longrightarrow> users d' x \<noteq> None"
    "\<forall>x. avatar_set d' x = avatar_set ?d x"
    unfolding seq by blast
  have ex: "users d' opp \<noteq> None" "users d' u \<noteq> None" using d'(3) ou' u' by auto
  have av: "avatar_set d' opp = avatar_set (w_db w) opp" "avatar_set d' u = avatar_set (w_db w) u"
    using d'(4) by (simp_all add: avatar_set_online)
  show ?thesis
  proof (cases "avatar_set (w_db w) opp \<or> avatar_set (w_db w) u")
    case True
    with get_match_data_result[OF d'(2)] ex av
    have "get_match_data ?m d' = Inl AttributeError" by simp
    then show ?thesis
      using assms(1,2) d'(1) True by (simp add: mm_connect_def send_to_def Let_def)
  next
    case False
    with get_match_data_result[OF d'(2)] ex av
    obtain md where "get_match_data ?m d' = Inr md" "md_id md = ?m" "md_total_rounds md = 5"
      by auto
    then show ?thesis
      using assms(1,2) d'(1) False by (simp add: mm_connect_def send_to_def Let_def)
  qed
qed

text \<open>
  In the run \<open>ex_avatar\<close> the waiting user has an avatar: the match and its rounds are
  created, the call ends with the AttributeError and no \<open>match_found\<close> is sent.
\<close>

lemma ex_avatar_raises:
  "fst ex_avatar = Inl AttributeError \<and>
   map fst (rounds (w_db (snd ex_avatar))) = [(1, 1), (1, 2), (1, 3), (1, 4), (1, 5)] \<and>
   waiting_players (snd ex_avatar) = [] \<and>
   mm_sent (snd ex_avatar) = [(''ch1'', MatchmakingStart)]"
  by (simp add: ex_avatar_def ex_defs mm_defs Let_def)

text \<open>
  Claim C5, amended: for every call of \<open>connect\<close> by an authenticated caller, also one
  who is already in the waiting queue or currently in a live match, the call is not
  refused. If the queue is empty the caller is parked; if the first waiting player is
  the caller itself, the caller is parked again and its queue entry is overwritten with
  the new channel; if the first waiting player is another user, that player leaves the
  queue, the match of the two is created, and the caller is paired when neither of the
  two has an avatar set. (The users concerned have rows in the database; with an avatar
  set the call ends with the AttributeError of \<open>get_match_data\<close>.)
\<close>

theorem C5_connect_never_refuses:
  assumes "users (w_db w) u \<noteq> None"
      and "\<forall>p \<in> set (waiting_players w). users (w_db w) (fst p) \<noteq> None"
  shows "case waiting_players w of
           [] \<Rightarrow>
             fst (mm_connect (Some u) ch sh w) = Inr Parked \<and>
             waiting_players (snd (mm_connect (Some u) ch sh w)) = [(u, ch)]
         | (opp, oc) # rest \<Rightarrow>
             if opp \<noteq> u then
               fst (mm_connect (Some u) ch sh w) =
                 (if avatar_set (w_db w) opp \<or> avatar_set (w_db w) u
                  then Inl AttributeError
                  else Inr (Paired (match_seq (w_db w) + 1))) \<and>
               waiting_players (snd (mm_connect (Some u) ch sh w)) =
                 AList.delete opp (waiting_players w) \<and>
               matches (w_db (snd (mm_connect (Some u) ch sh w))) (match_seq (w_db w) + 1)
                 \<noteq> None
             else
               fst (mm_connect (Some u) ch sh w) = Inr Parked \<and>
               waiting_players (snd (mm_connect (Some u) ch sh w)) =
                 AList.update u ch (waiting_players w)"
proof (cases "waiting_players w")
  case Nil
  then show ?thesis by (simp add: mm_connect_def park_def send_to_def Let_def)
next
  case (Cons p rest)
  obtain opp oc where p: "p = (opp, oc)" by (cases p)
  show ?thesis
  proof (cases "opp = u")
    case True
    then show ?thesis using Cons p by (simp add: mm_connect_def park_def send_to_def Let_def)
  next
    case False
    have w: "waiting_players w = (opp, oc) # rest" using Cons p by simp
    have o: "users (w_db w) opp \<noteq> None" using assms(2) w by auto
    from mm_connect_pairs[OF w False assms(1) o, of ch sh] obtain d' where d':
      "w_db (snd (mm_connect (Some u) ch sh w)) = d'"
      "create_match u opp sh (set_user_online u True (w_db w))
             = Inr (match_seq (w_db w) + 1, d')"
      "waiting_players (snd (mm_connect (Some u) ch sh w))
             = AList.delete opp (waiting_players w)"
      "if avatar_set (w_db w) opp \<or> avatar_set (w_db w) u
            then fst (mm_connect (Some u) ch sh w) = Inl AttributeError \<and>
                 mm_sent (snd (mm_connect (Some u) ch sh w)) = mm_sent w
            else (\<exists>md. fst (mm_connect (Some u) ch sh w) = Inr (Paired (match_seq (w_db w) + 1)) \<and>
                   mm_sent (snd (mm_connect (Some u) ch sh w))
                     = mm_sent w @ [(oc, MatchFound md), (ch, MatchFound md)] \<and>
                   md_id md = match_seq (w_db w) + 1 \<and> md_total_rounds md = 5)"
      by blast
    from o obtain ou where "users (set_user_online u True (w_db w)) opp = Some ou"
      using False by (auto simp: set_user_online_def)
    from create_match_ok[OF this, of u sh] d'(2)
    have m: "matches d' (match_seq (w_db w) + 1) \<noteq> None"
      by (auto simp: set_user_online_def)
    show ?thesis
      using w False d'(1,3,4) m by (auto split: if_splits)
  qed
qed

text \<open>The amended claim C5 for user 1 connecting while it is waiting.\<close>

theorem C5_connect_never_refuses_witness:
  "users (w_db (snd (mm_connect (Some 1) ''ch1'' ex_questions ex_w0))) 1 \<noteq> None \<and>
   waiting_players (snd (mm_connect (Some 1) ''ch1'' ex_questions ex_w0)) = [(1, ''ch1'')] \<and>
   fst ex_requeue = Inr Parked \<and>
   waiting_players (snd ex_requeue) = [(1, ''ch1b'')]"
proof -
  let ?w = "snd (mm_connect (Some 1) ''ch1'' ex_questions ex_w0)"
  have h1: "users (w_db ?w) 1 \<noteq> None"
    by (simp add: ex_defs mm_defs Let_def)
  have q: "waiting_players ?w = [(1, ''ch1'')]"
    by (simp add: ex_defs mm_defs Let_def)
  have h2: "\<forall>p \<in> set (waiting_players ?w). users (w_db ?w) (fst p) \<noteq> None"
    using h1 by (simp add: q)
  show ?thesis
    using h1 q C5_connect_never_refuses [OF h1 h2, of "''ch1b''" ex_questions]
    by (simp add: ex_requeue_def)
qed

text \<open>
  Claim C6 as stated says that with fewer than \<open>total_rounds\<close> questions the pairing
  fails, no match with fewer rounds is created and both clients receive
  \<open>pairing_failed\<close>. In the run \<open>ex_few\<close> the Question table has three rows: the pairing
  succeeds, match 1 is created in progress with \<open>total_rounds = 5\<close> and three rounds, and
  both channels receive \<open>match_found\<close>.
\<close>

theorem C6_counterexample:
  "length (questions (w_db (snd ex_few))) = 3 \<and>
   fst ex_few = Inr (Paired 1) \<and>
   map fst (rounds (w_db (snd ex_few))) = [(1, 1), (1, 2), (1, 3)] \<and>
   map_option (\<lambda>m. (status m, total_rounds m)) (matches (w_db (snd ex_few)) 1)
     = Some (InProgress, 5) \<and>
   map fst (mm_sent (snd ex_few)) = [''ch1'', ''ch1'', ''ch2''] \<and>
   map snd (mm_sent (snd ex_few)) =
     [MatchmakingStart, MatchFound ex_match_data, MatchFound ex_match_data]"
  by (simp add: ex_few_def ex_defs mm_defs Let_def)

text \<open>The numbering of \<open>enumerate(questions, 1)\<close>.\<close>

lemma enumerate_from_fst:
  "map fst (enumerate_from i xs) = map (\<lambda>k. i + int k) [0 ..< length xs]"
proof (induction xs arbitrary: i)
  case Nil
  then show ?case by simp
next
  case (Cons x xs)
  have "[0 ..< Suc (length xs)] = 0 # map Suc [0 ..< length xs]"
    by (simp add: upt_conv_Cons map_Suc_upt del: upt_Suc)
  then show ?case using Cons[of "i + 1"] by (simp add: comp_def del: upt_Suc)
qed

lemma enumerate_from_snd: "map snd (enumerate_from i xs) = xs"
  by (induction xs arbitrary: i) auto

text \<open>
  Claim C6, amended: whenever a pairing is attempted, whatever the number of questions
  in the repository, question selection does not fail and nothing is rolled back: the
  match is created in progress with \<open>total_rounds = 5\<close> and one round per selected
  question, five or as many as there are if fewer, numbered from 1 in draw order; no
  \<open>pairing_failed\<close> is sent, and when neither player has an avatar set both clients
  receive \<open>match_found\<close>. (With an avatar set the call ends with the AttributeError of
  \<open>get_match_data\<close> and no frame, the match and its rounds being created all the same.)
\<close>

theorem C6_pairing_with_few_questions:
  assumes "waiting_players w = (opp, oc) # rest" and "opp \<noteq> u"
      and "users (w_db w) u \<noteq> None" and "users (w_db w) opp \<noteq> None"
  shows "\<exists>w' created.
           snd (mm_connect (Some u) ch sh w) = w' \<and>
           map_option (\<lambda>x. (status x, total_rounds x))
             (matches (w_db w') (match_seq (w_db w) + 1)) = Some (InProgress, 5) \<and>
           rounds (w_db w') = rounds (w_db w) @ created \<and>
           map fst created =
             map (\<lambda>k. (match_seq (w_db w) + 1, 1 + int k)) [0 ..< min 5 (length sh)] \<and>
           map (\<lambda>x. r_question (snd x)) created = take 5 sh \<and>
           (if avatar_set (w_db w) opp \<or> avatar_set (w_db w) u
            then fst (mm_connect (Some u) ch sh w) = Inl AttributeError \<and>
                 mm_sent w' = mm_sent w
            else (\<exists>md. fst (mm_connect (Some u) ch sh w) = Inr (Paired (match_seq (w_db w) + 1)) \<and>
                   mm_sent w' = mm_sent w @ [(oc, MatchFound md), (ch, MatchFound md)] \<and>
                   md_id md = match_seq (w_db w) + 1 \<and> md_total_rounds md = 5))"
proof -
  let ?d = "set_user_online u True (w_db w)"
  let ?m = "match_seq (w_db w) + 1"
  let ?created = "map (\<lambda>(i, q). ((?m, i), new_round q)) (enumerate_from 1 (take 5 sh))"
  from mm_connect_pairs[OF assms, of ch sh] obtain d' where d':
    "w_db (snd (mm_connect (Some u) ch sh w)) = d'"
    "create_match u opp sh ?d = Inr (?m, d')"
    "if avatar_set (w_db w) opp \<or> avatar_set (w_db w) u
            then fst (mm_connect (Some u) ch sh w) = Inl AttributeError \<and>
                 mm_sent (snd (mm_connect (Some u) ch sh w)) = mm_sent w
            else (\<exists>md. fst (mm_connect (Some u) ch sh w) = Inr (Paired ?m) \<and>
                   mm_sent (snd (mm_connect (Some u) ch sh w))
                     = mm_sent w @ [(oc, MatchFound md), (ch, MatchFound md)] \<and>
                   md_id md = ?m \<and> md_total_rounds md = 5)"
    by blast
  from assms(4) obtain ou where "users ?d opp = Some ou"
    using assms(2) by (auto simp: set_user_online_def)
  from create_match_ok[OF this, of u sh] d'(2)
  have c: "matches d' ?m =
           Some \<lparr>player1_id = opp, player2_id = u, score1 = 0, score2 = 0, winner = None,
                 status = InProgress, m_current_round = 0, total_rounds = 5\<rparr>"
      "rounds d' = rounds (w_db w) @ ?created"
    by (auto simp: set_user_online_def)
  have k: "map fst ?created = map (\<lambda>k. (?m, 1 + int k)) [0 ..< min 5 (length sh)]"
  proof -
    have "map fst ?created = map (\<lambda>i. (?m, i)) (map fst (enumerate_from 1 (take 5 sh)))"
      by (simp add: case_prod_beta comp_def)
    also have "\<dots> = map (\<lambda>k. (?m, 1 + int k)) [0 ..< min 5 (length sh)]"
      by (simp only: enumerate_from_fst) (simp add: comp_def min.commute)
    finally show ?thesis .
  qed
  have q: "map (\<lambda>x. r_question (snd x)) ?created = take 5 sh"
  proof -
    have "map (\<lambda>x. r_question (snd x)) ?created = map snd (enumerate_from 1 (take 5 sh))"
      by (simp add: case_prod_beta comp_def new_round_def)
    then show ?thesis by (simp only: enumerate_from_snd)
  qed
  show ?thesis
    using d'(1,3) c k q by simp
qed

text \<open>The amended claim C6 on the pairing with three questions.\<close>

theorem C6_pairing_with_few_questions_witness:
  "(\<exists>w' created md.
      ex_few = (Inr (Paired 1), w') \<and>
      mm_sent w' = [(''ch1'', MatchmakingStart), (''ch1'', MatchFound md), (''ch2'', MatchFound md)] \<and>
      md_total_rounds md = 5 \<and>
      rounds (w_db w') = created \<and>
      map fst created = [(1, 1), (1, 2), (1, 3)])"
proof -
  let ?w = "snd (mm_connect (Some 1) ''ch1'' (take 3 ex_questions)
          (ex_w0\<lparr>w_db := ex_db0\<lparr>questions := take 3 ex_questions\<rparr>\<rparr>))"
  have h1: "waiting_players ?w = (1, ''ch1'') # []"
    by (simp add: ex_defs mm_defs Let_def)
  have h2: "(1::int) \<noteq> 2" by simp
  have h3: "users (w_db ?w) 2 \<noteq> None"
    by (simp add: ex_defs mm_defs Let_def)
  have h4: "users (w_db ?w) 1 \<noteq> None"
    by (simp add: ex_defs mm_defs Let_def)
  have s: "mm_sent ?w = [(''ch1'', MatchmakingStart)]" "rounds (w_db ?w) = []"
      "match_seq (w_db ?w) = 0"
      "\<not> avatar_set (w_db ?w) 1" "\<not> avatar_set (w_db ?w) 2"
    by (simp_all add: ex_defs mm_defs avatar_set_def Let_def)
  have n: "[0 ..< min (length ex_questions) 3] = [0, 1, 2]"
    by (simp add: ex_questions_def upt_conv_Cons)
  show ?thesis
    using C6_pairing_with_few_questions [OF h1 h2 h3 h4, of "''ch2''" "take 3 ex_questions"]
    by (auto simp: ex_few_def s n prod_eq_iff)
qed

section \<open>Emojis\<close>

text \<open>
  The emoji frames a session has forwarded are read off the log of group events; only
  \<open>handle_emoji\<close> adds to them, and no handler of an inbound frame removes the match
  state or changes the emoji counters of another user.
\<close>

lemma forwarded_in_append:
  "forwarded_in c s (xs @ ys) = forwarded_in c s xs @ forwarded_in c s ys"
  by (simp add: forwarded_in_def map_filter_def)

lemma forwarded_in_single:
  "forwarded_in c s [(m, ev)] =
     (case ev of
        EmojiReceived s' e \<Rightarrow>
          if m = c_match_id c \<and> s' = s \<and> s' \<noteq> c_user c then [e] else []
      | _ \<Rightarrow> [])"
  by (simp add: forwarded_in_def map_filter_def emoji_received_def split: group_event.splits)

lemma forwarded_own: "forwarded c (c_user c) w = []"
  by (auto simp: forwarded_def forwarded_in_def map_filter_def emoji_received_def
      filter_empty_conv split: group_event.splits)

lemma game_states_set_state: "game_states (set_state m st w) = (game_states w)(m \<mapsto> st)"
  by (simp add: set_state_def)

lemma game_states_group_send: "game_states (group_send m ev w) = game_states w"
  by (simp add: group_send_def)

lemma forwarded_group_send:
  "forwarded c s (group_send m ev w) = forwarded c s w @ forwarded_in c s [(m, ev)]"
  by (simp add: forwarded_def group_send_def forwarded_in_append)

lemma forwarded_w_db [simp]: "forwarded c s (w\<lparr>w_db := d\<rparr>) = forwarded c s w"
  by (simp add: forwarded_def)

lemma forwarded_set_state [simp]: "forwarded c s (set_state m st w) = forwarded c s w"
  by (simp add: forwarded_def set_state_def)

lemma end_round_forwarded: "forwarded c s (snd (end_round self w)) = forwarded c s w"
  by (simp add: end_round_def Let_def forwarded_group_send forwarded_in_single
      split: option.splits sum.splits prod.splits)

lemma start_round_forwarded: "forwarded c s (snd (start_round self now w)) = forwarded c s w"
  by (simp add: start_round_def Let_def forwarded_group_send forwarded_in_single
      split: option.splits)

lemma start_round_state:
  assumes "game_states w m = Some st"
  shows "\<exists>st'. game_states (snd (start_round self now w)) m = Some st' \<and>
           emojis_sent st' = emojis_sent st"
  using assms
  by (auto simp: start_round_def Let_def group_send_def set_state_def split: option.splits)

lemma handle_answer_forwarded:
  "forwarded c s (snd (handle_answer self data w)) = forwarded c s w"
  by (simp add: handle_answer_def Let_def end_round_forwarded forwarded_group_send
      forwarded_in_single split: option.splits)

lemma handle_answer_state:
  assumes "game_states w m = Some st"
  shows "\<exists>st'. game_states (snd (handle_answer self data w)) m = Some st' \<and>
           emojis_sent st' = emojis_sent st"
  using assms
  by (auto simp: handle_answer_def Let_def end_round_game_states group_send_def set_state_def
      split: option.splits)

lemma handle_emoji_effect:
  assumes "game_states w m = Some st" and "c_match_id opp = m" and "c_user opp \<noteq> u"
  shows "\<exists>st'. game_states (snd (handle_emoji self e w)) m = Some st' \<and>
           (if c_user self = u \<and> c_match_id self = m \<and> sent_count st u < 5
            then sent_count st' u = sent_count st u + 1 \<and>
                 forwarded opp u (snd (handle_emoji self e w)) = forwarded opp u w @ [e]
            else sent_count st' u = sent_count st u \<and>
                 forwarded opp u (snd (handle_emoji self e w)) = forwarded opp u w)"
  using assms
  by (auto simp: handle_emoji_def Let_def sent_count_def game_states_set_state
      game_states_group_send forwarded_group_send forwarded_in_single split: option.splits)

lemma receive_effect:
  assumes "game_states w m = Some st" and "c_match_id opp = m" and "c_user opp \<noteq> u"
  shows "\<exists>st'. game_states (snd (receive self now f w)) m = Some st' \<and>
           (if c_user self = u \<and> c_match_id self = m \<and> is_emoji f \<and> sent_count st u < 5
            then sent_count st' u = sent_count st u + 1 \<and>
                 length (forwarded opp u (snd (receive self now f w)))
                   = length (forwarded opp u w) + 1
            else sent_count st' u = sent_count st u \<and>
                 forwarded opp u (snd (receive self now f w)) = forwarded opp u w)"
proof (cases f)
  case Ready
  show ?thesis
  proof (cases "game_states w (c_match_id self)")
    case None
    then show ?thesis using assms(1) Ready by (simp add: receive_def handle_ready_def is_emoji_def)
  next
    case (Some a)
    from start_round_state[OF assms(1), of self now] obtain st' where
      "game_states (snd (start_round self now w)) m = Some st'" "emojis_sent st' = emojis_sent st"
      by blast
    then show ?thesis using assms(1) Ready Some
      by (simp add: receive_def handle_ready_def is_emoji_def start_round_forwarded sent_count_def)
  qed
next
  case (Answer data)
  from handle_answer_state[OF assms(1), of self data] obtain st' where
    "game_states (snd (handle_answer self data w)) m = Some st'" "emojis_sent st' = emojis_sent st"
    by blast
  then show ?thesis using Answer
    by (simp add: receive_def is_emoji_def handle_answer_forwarded sent_count_def)
next
  case (Emoji e)
  from handle_emoji_effect[OF assms, of self e] show ?thesis using Emoji
    by (auto simp: receive_def is_emoji_def split: if_splits)
next
  case Other
  then show ?thesis using assms(1) by (simp add: receive_def is_emoji_def)
qed

text \<open>
  While the state of a match exists: for every run of inbound frames of any kind from
  any sessions, a session never receives the emojis of its own user, and the opponent's
  session receives one \<open>emoji_received\<close> frame for each emoji frame of the player until
  the player's count in that state reaches 5, and none after that.
\<close>

lemma emoji_limit_per_state:
  assumes "game_states w (c_match_id self) = Some st"
      and "c_match_id opp = c_match_id self" and "c_user opp \<noteq> c_user self"
  shows "forwarded self (c_user self) (run_frames fs w) = [] \<and>
         length (forwarded opp (c_user self) (run_frames fs w)) =
           length (forwarded opp (c_user self) w)
             + min (emoji_frames_of self fs) (5 - sent_count st (c_user self))"
proof -
  have "length (forwarded opp (c_user self) (run_frames fs w)) =
           length (forwarded opp (c_user self) w)
             + min (emoji_frames_of self fs) (5 - sent_count st (c_user self))"
    using assms(1)
  proof (induction fs arbitrary: w st)
    case Nil
    then show ?case by (simp add: emoji_frames_of_def)
  next
    case (Cons x fs)
    obtain c now f where x: "x = (c, now, f)" by (cases x)
    let ?w1 = "snd (receive c now f w)"
    from receive_effect[OF Cons.prems assms(2,3), of c now f] obtain st1 where st1:
      "game_states ?w1 (c_match_id self) = Some st1"
      "if c_user c = c_user self \<and> c_match_id c = c_match_id self \<and> is_emoji f
            \<and> sent_count st (c_user self) < 5
       then sent_count st1 (c_user self) = sent_count st (c_user self) + 1 \<and>
            length (forwarded opp (c_user self) ?w1) = length (forwarded opp (c_user self) w) + 1
       else sent_count st1 (c_user self) = sent_count st (c_user self) \<and>
            forwarded opp (c_user self) ?w1 = forwarded opp (c_user self) w"
      by blast
    have ih: "length (forwarded opp (c_user self) (run_frames fs ?w1)) =
           length (forwarded opp (c_user self) ?w1)
             + min (emoji_frames_of self fs) (5 - sent_count st1 (c_user self))"
      by (rule Cons.IH[OF st1(1)])
    show ?case
    proof (cases "c_user c = c_user self \<and> c_match_id c = c_match_id self \<and> is_emoji f")
      case True
      then have n: "emoji_frames_of self (x # fs) = Suc (emoji_frames_of self fs)"
        by (simp add: emoji_frames_of_def x)
      show ?thesis
      proof (cases "sent_count st (c_user self) < 5")
        case True
        with \<open>c_user c = c_user self \<and> c_match_id c = c_match_id self \<and> is_emoji f\<close> st1(2)
        have "sent_count st1 (c_user self) = sent_count st (c_user self) + 1"
          "length (forwarded opp (c_user self) ?w1) = length (forwarded opp (c_user self) w) + 1"
          by simp_all
        with ih n True show ?thesis by (simp add: x min_def; arith)
      next
        case False
        with st1(2) have "sent_count st1 (c_user self) = sent_count st (c_user self)"
          "forwarded opp (c_user self) ?w1 = forwarded opp (c_user self) w"
          by simp_all
        with ih n False show ?thesis by (simp add: x)
      qed
    next
      case False
      then have n: "emoji_frames_of self (x # fs) = emoji_frames_of self fs"
        by (auto simp: emoji_frames_of_def x)
      from False st1(2) have "sent_count st1 (c_user self) = sent_count st (c_user self)"
          "forwarded opp (c_user self) ?w1 = forwarded opp (c_user self) w"
        by auto
      with ih n show ?thesis by (simp add: x)
    qed
  qed
  then show ?thesis by (simp add: forwarded_own)
qed

text \<open>Six emoji frames of user 1 in round 1: five reach user 2, none comes back.\<close>

lemma ex_six_emojis_forwarded:
  "forwarded alice (c_user alice) (run_frames ex_six_emojis ex_round1) = [] \<and>
   length (forwarded bob (c_user alice) (run_frames ex_six_emojis ex_round1)) = 5"
proof -
  have h1: "game_states ex_round1 (c_match_id alice) = Some ex_state1"
    by (simp add: ex_round1_def alice_def)
  have h2: "c_match_id bob = c_match_id alice" and h3: "c_user bob \<noteq> c_user alice"
    by (simp_all add: alice_def bob_def)
  have n: "emoji_frames_of alice ex_six_emojis = 6"
    by (simp add: emoji_frames_of_def ex_six_emojis_def is_emoji_def)
  have z: "forwarded bob (c_user alice) ex_round1 = []" "sent_count ex_state1 (c_user alice) = 0"
    by (simp_all add: forwarded_def forwarded_in_def map_filter_def ex_round1_def
        sent_count_def ex_state1_def)
  show ?thesis
    using emoji_limit_per_state [OF h1 h2 h3, of ex_six_emojis]
    by (simp add: n z)
qed

text \<open>
  Claim C9 says that at most 5 of a player's emoji frames are forwarded per match.
  Evaluating the code on the run \<open>ex_ten_sent\<close>: user 1 sends five emoji frames and all
  five reach user 2; both players disconnect, so \<open>disconnect\<close> deletes the state of the
  match with its counters; both connect again to match 1, which is still in progress,
  and \<open>connect\<close> creates a new state with empty counters; user 1 sends five more emoji
  frames and all of them are forwarded: user 2 has received ten \<open>emoji_received\<close> frames
  of user 1 in one match.
\<close>

theorem C9_limit_reset_by_reconnect:
  "length (forwarded bob 1 ex_five_sent) = 5 \<and>
   game_states ex_both_left 1 = None \<and>
   map_option status (matches (w_db ex_both_back) 1) = Some InProgress \<and>
   map_option emojis_sent (game_states ex_both_back 1) = Some Map.empty \<and>
   length (forwarded bob 1 ex_ten_sent) = 10"
  by (simp add: ex_ten_sent_def ex_both_back_def ex_both_left_def ex_five_sent_def
      ex_six_emojis_def ex_defs receive_def handle_emoji_def game_disconnect_def
      game_connect_def verify_player_def initial_state_def set_state_def group_send_def
      forwarded_def forwarded_in_def map_filter_def emoji_received_def Let_def)

end
